theory Spec2Isabelle
  imports Complex_Main
begin

section \<open>Data model\<close>

text \<open>
  Lengths and positions (the C++ type \<open>b\<close>, a 64-bit count of bits) are unbounded
  integers; data rates and clock times (C++ doubles) are exact rationals. Identifiers
  (\<open>getTreeId\<close>, \<open>getTransmissionId\<close>) are integers, \<open>-1\<close> being the coordinator's
  "no session" sentinel.
\<close>

type_synonym b = int
type_synonym bps = rat
type_synonym clocktime = rat

record packet =
  treeId :: int
  transmissionId :: int
  totalLength :: b

datatype signal =
    packetPushedInSignal
  | packetPushedOutSignal
  | packetPulledInSignal
  | packetPulledOutSignal

text \<open>
  Every call that leaves the component (to a bound neighbour, to the observers, to the
  animation and to the clock) is recorded, in program order, as an event. The helpers
  \<open>pushOrSendPacket*\<close>, \<open>animatePullPacket*\<close>, \<open>emit\<close> and \<open>handlePacketProcessed\<close>
  belong to base classes that are not part of the sources at hand, so each call is kept
  as one opaque event carrying its arguments. A neighbour is taken to return without
  calling back into the component. Ownership (\<open>take\<close>), logging, \<open>Enter_Method\<close> and
  \<open>updateDisplayString\<close> leave no trace. \<open>delete\<close> of a packet is an event.
\<close>

datatype event =
    Emit signal packet
  | HandlePacketProcessed packet
  | PushOrSendPacket packet
  | PushOrSendPacketStart packet bps int
  | PushOrSendPacketEnd packet int
  | PushOrSendPacketProgress packet bps b b int
  | ProviderPullPacket
  | ProviderPullPacketStart bps
  | ProviderPullPacketEnd
  | ProviderPullPacketProgress bps b b
  | AnimatePullPacket packet
  | AnimatePullPacketStart packet bps int
  | AnimatePullPacketEnd packet int
  | AnimatePullPacketProgress packet bps b b int
  | ProducerHandleCanPushPacketChanged
  | ProducerHandlePushPacketProcessed packet bool
  | CollectorHandleCanPullPacketChanged
  | CollectorHandlePullPacketProcessed packet bool
  | ScheduleClockEventAfter clocktime
  | CancelClockEvent
  | DeletePacket packet

datatype error = StreamingInProgress | NullPointerDereference

text \<open>
  The upstream Provider as the callee sees it: what each of its methods hands back at
  the one call an operation makes.
\<close>

record provider_ref =
  canPullSomePacket :: bool
  pullPacketRet :: packet
  pullPacketStartRet :: "bps \<Rightarrow> packet"
  pullPacketEndRet :: packet
  pullPacketProgressRet :: "bps \<Rightarrow> b \<Rightarrow> b \<Rightarrow> packet"

section \<open>PacketFlowBase: the Flow Coordinator\<close>

text \<open>
  The bindings and the virtual hook of a coordinator: \<open>processPacket\<close> (pure virtual in
  the class, it rewrites the packet in place), whether a Producer and a Collector are
  bound, and the Provider when one is bound.
\<close>

record flow_env =
  processPacket :: "packet \<Rightarrow> packet"
  producer :: bool
  provider :: "provider_ref option"
  collector :: bool

record flow =
  inProgressStreamId :: int
  trace :: "event list"

definition record_event :: "event \<Rightarrow> flow \<Rightarrow> flow" where
  "record_event e st = st\<lparr>trace := trace st @ [e]\<rparr>"

definition emit :: "signal \<Rightarrow> packet \<Rightarrow> flow \<Rightarrow> flow" where
  "emit sig p st = record_event (Emit sig p) st"

definition handlePacketProcessed :: "packet \<Rightarrow> flow \<Rightarrow> flow" where
  "handlePacketProcessed p st = record_event (HandlePacketProcessed p) st"

text \<open>
  Modelled from the spec: \<open>isStreamingPacket\<close> is defined in the class header, which is
  not among the sources. A session is open iff the id is not the sentinel \<open>-1\<close>.
\<close>

definition isStreamingPacket :: "flow \<Rightarrow> bool" where
  "isStreamingPacket st = (inProgressStreamId st \<noteq> - 1)"

definition checkPacketStreaming :: "packet option \<Rightarrow> flow \<Rightarrow> error + unit" where
  "checkPacketStreaming packet st =
     (if inProgressStreamId st \<noteq> - 1 \<and>
         (case packet of None \<Rightarrow> True | Some p \<Rightarrow> treeId p \<noteq> inProgressStreamId st)
      then Inl StreamingInProgress else Inr ())"

definition startPacketStreaming :: "packet \<Rightarrow> flow \<Rightarrow> flow" where
  "startPacketStreaming packet st = st\<lparr>inProgressStreamId := treeId packet\<rparr>"

definition endPacketStreaming :: "packet \<Rightarrow> flow \<Rightarrow> flow" where
  "endPacketStreaming packet st = (handlePacketProcessed packet st)\<lparr>inProgressStreamId := - 1\<rparr>"

text \<open>
  Every entry point returns the outcome (\<open>Inl\<close> the exception thrown, \<open>Inr\<close> the value
  returned) together with the coordinator as it stands when control leaves the call.
  The gate argument is unused by every body and is dropped.
\<close>

definition pushPacket :: "flow_env \<Rightarrow> packet \<Rightarrow> flow \<Rightarrow> (error + unit) \<times> flow" where
  "pushPacket env packet st =
     (case checkPacketStreaming None st of
        Inl e \<Rightarrow> (Inl e, st)
      | Inr _ \<Rightarrow>
          let st1 = emit packetPushedInSignal packet st;
              p1 = processPacket env packet;
              st2 = handlePacketProcessed p1 st1;
              st3 = emit packetPushedOutSignal p1 st2;
              st4 = record_event (PushOrSendPacket p1) st3
          in (Inr (), st4))"

definition pushPacketStart :: "flow_env \<Rightarrow> packet \<Rightarrow> bps \<Rightarrow> flow \<Rightarrow> (error + unit) \<times> flow" where
  "pushPacketStart env packet datarate st =
     (case checkPacketStreaming (Some packet) st of
        Inl e \<Rightarrow> (Inl e, st)
      | Inr _ \<Rightarrow>
          let st1 = emit packetPushedInSignal packet st;
              st2 = startPacketStreaming packet st1;
              p1 = processPacket env packet;
              st3 = record_event (PushOrSendPacketStart p1 datarate (transmissionId p1)) st2
          in (Inr (), st3))"

definition pushPacketEnd :: "flow_env \<Rightarrow> packet \<Rightarrow> flow \<Rightarrow> (error + unit) \<times> flow" where
  "pushPacketEnd env packet st =
     (case (if \<not> isStreamingPacket st then Inr (startPacketStreaming packet st)
            else (case checkPacketStreaming (Some packet) st of
                    Inl e \<Rightarrow> Inl e | Inr _ \<Rightarrow> Inr st)) of
        Inl e \<Rightarrow> (Inl e, st)
      | Inr st1 \<Rightarrow>
          let p1 = processPacket env packet;
              st2 = emit packetPushedOutSignal p1 st1;
              st3 = endPacketStreaming p1 st2;
              st4 = record_event (PushOrSendPacketEnd p1 (transmissionId p1)) st3
          in (Inr (), st4))"

definition pushPacketProgress ::
  "flow_env \<Rightarrow> packet \<Rightarrow> bps \<Rightarrow> b \<Rightarrow> b \<Rightarrow> flow \<Rightarrow> (error + unit) \<times> flow" where
  "pushPacketProgress env packet datarate position extraProcessableLength st =
     (case (if \<not> isStreamingPacket st then Inr (startPacketStreaming packet st)
            else (case checkPacketStreaming (Some packet) st of
                    Inl e \<Rightarrow> Inl e | Inr _ \<Rightarrow> Inr st)) of
        Inl e \<Rightarrow> (Inl e, st)
      | Inr st1 \<Rightarrow>
          let isPacketEnd = (totalLength packet = position + extraProcessableLength);
              p1 = processPacket env packet
          in if isPacketEnd then
               let st2 = emit packetPushedOutSignal p1 st1;
                   st3 = endPacketStreaming p1 st2;
                   st4 = record_event (PushOrSendPacketEnd p1 (transmissionId p1)) st3
               in (Inr (), st4)
             else
               (Inr (), record_event
                  (PushOrSendPacketProgress p1 datarate position extraProcessableLength
                     (transmissionId p1)) st1))"

definition handleCanPushPacketChanged :: "flow_env \<Rightarrow> flow \<Rightarrow> (error + unit) \<times> flow" where
  "handleCanPushPacketChanged env st =
     (if producer env then (Inr (), record_event ProducerHandleCanPushPacketChanged st)
      else (Inr (), st))"

definition handlePushPacketProcessed ::
  "flow_env \<Rightarrow> packet \<Rightarrow> bool \<Rightarrow> flow \<Rightarrow> (error + unit) \<times> flow" where
  "handlePushPacketProcessed env packet successful st =
     (let st1 = endPacketStreaming packet st
      in if producer env
         then (Inr (), record_event (ProducerHandlePushPacketProcessed packet successful) st1)
         else (Inr (), st1))"

text \<open>
  The pull operations dereference the Provider without a null test; an unbound Provider
  is the branch \<open>NullPointerDereference\<close>, taken where the body first calls it.
\<close>

definition pullPacket :: "flow_env \<Rightarrow> flow \<Rightarrow> (error + packet) \<times> flow" where
  "pullPacket env st =
     (case checkPacketStreaming None st of
        Inl e \<Rightarrow> (Inl e, st)
      | Inr _ \<Rightarrow>
          (case provider env of
             None \<Rightarrow> (Inl NullPointerDereference, st)
           | Some pr \<Rightarrow>
               let st1 = record_event ProviderPullPacket st;
                   packet = pullPacketRet pr;
                   st2 = emit packetPulledInSignal packet st1;
                   p1 = processPacket env packet;
                   st3 = handlePacketProcessed p1 st2;
                   st4 = emit packetPulledOutSignal p1 st3;
                   st5 = record_event (AnimatePullPacket p1) st4
               in (Inr p1, st5)))"

definition pullPacketStart :: "flow_env \<Rightarrow> bps \<Rightarrow> flow \<Rightarrow> (error + packet) \<times> flow" where
  "pullPacketStart env datarate st =
     (case checkPacketStreaming None st of
        Inl e \<Rightarrow> (Inl e, st)
      | Inr _ \<Rightarrow>
          (case provider env of
             None \<Rightarrow> (Inl NullPointerDereference, st)
           | Some pr \<Rightarrow>
               let st1 = record_event (ProviderPullPacketStart datarate) st;
                   packet = pullPacketStartRet pr datarate;
                   st2 = emit packetPulledInSignal packet st1;
                   st3 = st2\<lparr>inProgressStreamId := treeId packet\<rparr>;
                   p1 = processPacket env packet;
                   st4 = emit packetPulledOutSignal p1 st3;
                   st5 = record_event (AnimatePullPacketStart p1 datarate (transmissionId p1)) st4
               in (Inr p1, st5)))"

definition pullPacketEnd :: "flow_env \<Rightarrow> flow \<Rightarrow> (error + packet) \<times> flow" where
  "pullPacketEnd env st =
     (case provider env of
        None \<Rightarrow> (Inl NullPointerDereference, st)
      | Some pr \<Rightarrow>
          let st1 = record_event ProviderPullPacketEnd st;
              packet = pullPacketEndRet pr
          in (case checkPacketStreaming (Some packet) st1 of
                Inl e \<Rightarrow> (Inl e, st1)
              | Inr _ \<Rightarrow>
                  let st2 = emit packetPulledInSignal packet st1;
                      p1 = processPacket env packet;
                      st3 = st2\<lparr>inProgressStreamId := treeId p1\<rparr>;
                      st4 = emit packetPulledOutSignal p1 st3;
                      st5 = endPacketStreaming p1 st4;
                      st6 = record_event (AnimatePullPacketEnd p1 (transmissionId p1)) st5
                  in (Inr p1, st6)))"

definition pullPacketProgress ::
  "flow_env \<Rightarrow> bps \<Rightarrow> b \<Rightarrow> b \<Rightarrow> flow \<Rightarrow> (error + packet) \<times> flow" where
  "pullPacketProgress env datarate position extraProcessableLength st =
     (case provider env of
        None \<Rightarrow> (Inl NullPointerDereference, st)
      | Some pr \<Rightarrow>
          let st1 = record_event
                      (ProviderPullPacketProgress datarate position extraProcessableLength) st;
              packet = pullPacketProgressRet pr datarate position extraProcessableLength
          in (case checkPacketStreaming (Some packet) st1 of
                Inl e \<Rightarrow> (Inl e, st1)
              | Inr _ \<Rightarrow>
                  let st2 = st1\<lparr>inProgressStreamId := treeId packet\<rparr>;
                      isPacketEnd = (totalLength packet = position + extraProcessableLength);
                      p1 = processPacket env packet;
                      st3 = (if isPacketEnd
                             then endPacketStreaming p1 (emit packetPulledOutSignal p1 st2)
                             else st2);
                      st4 = record_event
                              (AnimatePullPacketProgress p1 datarate position
                                 extraProcessableLength (transmissionId p1)) st3
                  in (Inr p1, st4)))"

definition handleCanPullPacketChanged :: "flow_env \<Rightarrow> flow \<Rightarrow> (error + unit) \<times> flow" where
  "handleCanPullPacketChanged env st =
     (if collector env then (Inr (), record_event CollectorHandleCanPullPacketChanged st)
      else (Inr (), st))"

definition handlePullPacketProcessed ::
  "flow_env \<Rightarrow> packet \<Rightarrow> bool \<Rightarrow> flow \<Rightarrow> (error + unit) \<times> flow" where
  "handlePullPacketProcessed env packet successful st =
     (let st1 = endPacketStreaming packet st
      in if collector env
         then (Inr (), record_event (CollectorHandlePullPacketProcessed packet successful) st1)
         else (Inr (), st1))"

text \<open>
  What the downstream Consumer ends up having received, read off the events: a packet
  counts as received when it is handed over whole or when its transfer is ended; a
  start or a progress fragment alone delivers nothing yet.
\<close>

fun receivedDownstream :: "event list \<Rightarrow> packet list" where
  "receivedDownstream [] = []"
| "receivedDownstream (PushOrSendPacket p # es) = p # receivedDownstream es"
| "receivedDownstream (PushOrSendPacketEnd p tid # es) = p # receivedDownstream es"
| "receivedDownstream (e # es) = receivedDownstream es"

text \<open>The events that forward an end of transfer towards the output gate.\<close>

fun isEndNotification :: "event \<Rightarrow> bool" where
  "isEndNotification (PushOrSendPacketEnd p tid) = True"
| "isEndNotification (AnimatePullPacketEnd p tid) = True"
| "isEndNotification e = False"

text \<open>
  The Consumer's view of a run: the calls made to it, in order. These are the
  \<open>pushOrSendPacket*\<close> calls; signals, the processed-packet bookkeeping, and the calls
  to the other neighbours are not shown to it.
\<close>

fun isConsumerCall :: "event \<Rightarrow> bool" where
  "isConsumerCall (PushOrSendPacket p) = True"
| "isConsumerCall (PushOrSendPacketStart p r tid) = True"
| "isConsumerCall (PushOrSendPacketEnd p tid) = True"
| "isConsumerCall (PushOrSendPacketProgress p r pos ext tid) = True"
| "isConsumerCall e = False"

definition consumerView :: "event list \<Rightarrow> event list" where
  "consumerView es = filter isConsumerCall es"

section \<open>PreemptingServer\<close>

text \<open>
  The server's parameters and neighbours: the configured data rate, the Provider
  (dereferenced unconditionally by the class), the Consumer's answer to
  \<open>canPushSomePacket\<close>, the packet copy made by \<open>dup\<close>, and the clock's current time.
\<close>

record server_env =
  datarate :: bps
  upstream :: provider_ref
  consumerCanPushSomePacket :: bool
  dup :: "packet \<Rightarrow> packet"
  clockTime :: clocktime

text \<open>
  \<open>timer\<close> is the arrival time of the scheduled \<open>ClockEvent\<close>, \<open>None\<close> while it is
  not scheduled.
\<close>

record server =
  streamedPacket :: "packet option"
  timer :: "clocktime option"
  actions :: "event list"

definition act :: "event \<Rightarrow> server \<Rightarrow> server" where
  "act e st = st\<lparr>actions := actions st @ [e]\<rparr>"

text \<open>
  Modelled from the spec: \<open>isStreaming\<close> is defined in the class header, which is not
  among the sources. The server is Streaming iff \<open>streamedPacket\<close> is non-null.
\<close>

definition isStreaming :: "server \<Rightarrow> bool" where
  "isStreaming st = (streamedPacket st \<noteq> None)"

text \<open>
  Modelled from the spec: \<open>scheduleClockEventAfter\<close> and \<open>cancelClockEvent\<close> belong to
  the clock mixin, which is not among the sources. Scheduling sets the timer's arrival
  to the current clock time plus the delay; cancellation is synchronous and immediate.
\<close>

definition scheduleClockEventAfter :: "server_env \<Rightarrow> clocktime \<Rightarrow> server \<Rightarrow> server" where
  "scheduleClockEventAfter env delay st =
     act (ScheduleClockEventAfter delay) (st\<lparr>timer := Some (clockTime env + delay)\<rparr>)"

definition cancelClockEvent :: "server \<Rightarrow> server" where
  "cancelClockEvent st = act CancelClockEvent (st\<lparr>timer := None\<rparr>)"

definition canStartStreaming :: "server_env \<Rightarrow> bool" where
  "canStartStreaming env = (canPullSomePacket (upstream env) \<and> consumerCanPushSomePacket env)"

definition startStreaming :: "server_env \<Rightarrow> server \<Rightarrow> server" where
  "startStreaming env st =
     (let st1 = act (ProviderPullPacketStart (datarate env)) st;
          packet = pullPacketStartRet (upstream env) (datarate env);
          st2 = st1\<lparr>streamedPacket := Some packet\<rparr>;
          st3 = act (PushOrSendPacketStart (dup env packet) (datarate env)
                       (transmissionId packet)) st2;
          st4 = scheduleClockEventAfter env
                  (of_int (totalLength packet) / datarate env) st3;
          st5 = act (HandlePacketProcessed packet) st4
      in st5)"

definition endStreaming :: "server_env \<Rightarrow> server \<Rightarrow> server" where
  "endStreaming env st =
     (let st1 = act ProviderPullPacketEnd st;
          packet = pullPacketEndRet (upstream env);
          st2 = (case streamedPacket st1 of
                   None \<Rightarrow> st1
                 | Some old \<Rightarrow> act (DeletePacket old) st1);
          st3 = st2\<lparr>streamedPacket := Some packet\<rparr>;
          st4 = act (PushOrSendPacketEnd packet (transmissionId packet)) st3;
          st5 = st4\<lparr>streamedPacket := None\<rparr>
      in st5)"

definition handleCanPushPacketChanged_server :: "server_env \<Rightarrow> server \<Rightarrow> server" where
  "handleCanPushPacketChanged_server env st =
     (if \<not> isStreaming st \<and> canStartStreaming env then startStreaming env st else st)"

definition handleCanPullPacketChanged_server :: "server_env \<Rightarrow> server \<Rightarrow> server" where
  "handleCanPullPacketChanged_server env st =
     (if isStreaming st then cancelClockEvent (endStreaming env st)
      else if canStartStreaming env then startStreaming env st
      else st)"

definition handlePushPacketProcessed_server ::
  "server_env \<Rightarrow> packet \<Rightarrow> bool \<Rightarrow> server \<Rightarrow> server" where
  "handlePushPacketProcessed_server env packet successful st =
     (if isStreaming st then
        let st1 = (case streamedPacket st of
                     None \<Rightarrow> st
                   | Some old \<Rightarrow> act (DeletePacket old) st);
            st2 = act ProviderPullPacketEnd st1;
            st3 = st2\<lparr>streamedPacket := Some (pullPacketEndRet (upstream env))\<rparr>;
            st4 = (case streamedPacket st3 of
                     None \<Rightarrow> st3
                   | Some fin \<Rightarrow> act (DeletePacket fin) st3);
            st5 = st4\<lparr>streamedPacket := None\<rparr>
        in st5
      else st)"

text \<open>
  The branch \<open>message == timer\<close> of \<open>handleMessage\<close>; the other branch belongs to the
  base class.
\<close>

definition handleMessage_timer :: "server_env \<Rightarrow> server \<Rightarrow> server" where
  "handleMessage_timer env st = endStreaming env st"

text \<open>
  Modelled from the spec: the event loop that delivers the timer is not among the
  sources. A scheduled timer fires once the clock reaches its arrival time, and is then
  taken off the schedule and delivered to \<open>handleMessage\<close>; a timer that is not
  scheduled never fires.
\<close>

definition timerFiresBy :: "server \<Rightarrow> clocktime \<Rightarrow> bool" where
  "timerFiresBy st t = (case timer st of None \<Rightarrow> False | Some arrival \<Rightarrow> arrival \<le> t)"

definition advanceClockTo :: "server_env \<Rightarrow> clocktime \<Rightarrow> server \<Rightarrow> server" where
  "advanceClockTo env t st =
     (if timerFiresBy st t then handleMessage_timer env (st\<lparr>timer := None\<rparr>) else st)"

section \<open>Example data\<close>

definition pkt :: "int \<Rightarrow> b \<Rightarrow> packet" where
  "pkt tid len = \<lparr>treeId = tid, transmissionId = tid, totalLength = len\<rparr>"

definition constProvider :: "packet \<Rightarrow> provider_ref" where
  "constProvider p =
     \<lparr>canPullSomePacket = True, pullPacketRet = p, pullPacketStartRet = (\<lambda>_. p),
      pullPacketEndRet = p, pullPacketProgressRet = (\<lambda>_ _ _. p)\<rparr>"

definition identityFlow :: "packet \<Rightarrow> flow_env" where
  "identityFlow p =
     \<lparr>processPacket = (\<lambda>q. q), producer = True, provider = Some (constProvider p),
      collector = True\<rparr>"

definition idleFlow :: flow where
  "idleFlow = \<lparr>inProgressStreamId = - 1, trace = []\<rparr>"

definition openFlow :: "int \<Rightarrow> flow" where
  "openFlow tid = \<lparr>inProgressStreamId = tid, trace = []\<rparr>"

definition exampleServerEnv :: "clocktime \<Rightarrow> server_env" where
  \<comment> \<open>rate 10, a packet of length 100 upstream, both neighbours ready\<close>
  "exampleServerEnv t =
     \<lparr>datarate = 10, upstream = constProvider (pkt 1 100), consumerCanPushSomePacket = True,
      dup = (\<lambda>q. q), clockTime = t\<rparr>"

definition idleServer :: server where
  "idleServer = \<lparr>streamedPacket = None, timer = None, actions = []\<rparr>"

definition streamingServer :: server where
  \<comment> \<open>the example server after its start transition at tick 0\<close>
  "streamingServer = handleCanPushPacketChanged_server (exampleServerEnv 0) idleServer"

section \<open>Basic facts\<close>

lemmas flow_defs = pushPacket_def pushPacketStart_def pushPacketEnd_def pushPacketProgress_def
  pullPacket_def pullPacketStart_def pullPacketEnd_def pullPacketProgress_def
  handleCanPushPacketChanged_def handlePushPacketProcessed_def
  handleCanPullPacketChanged_def handlePullPacketProcessed_def
  checkPacketStreaming_def isStreamingPacket_def startPacketStreaming_def endPacketStreaming_def
  emit_def handlePacketProcessed_def record_event_def Let_def

lemmas server_defs = handleCanPushPacketChanged_server_def handleCanPullPacketChanged_server_def
  handlePushPacketProcessed_server_def startStreaming_def endStreaming_def
  scheduleClockEventAfter_def cancelClockEvent_def act_def isStreaming_def Let_def

lemmas example_defs = pkt_def constProvider_def identityFlow_def idleFlow_def openFlow_def
  exampleServerEnv_def idleServer_def

lemma receivedDownstream_append:
  "receivedDownstream (xs @ ys) = receivedDownstream xs @ receivedDownstream ys"
  by (induction xs rule: receivedDownstream.induct) simp_all

lemma streamingServer_eq:
  "streamingServer =
     \<lparr>streamedPacket = Some (pkt 1 100), timer = Some 10,
      actions = [ProviderPullPacketStart 10, PushOrSendPacketStart (pkt 1 100) 10 1,
                 ScheduleClockEventAfter 10, HandlePacketProcessed (pkt 1 100)]\<rparr>"
  by (simp add: streamingServer_def server_defs canStartStreaming_def example_defs)

section \<open>The streaming-consistency check (C1, C6)\<close>

subsection \<open>When each operation raises the streaming error\<close>

lemma pushPacket_fails_iff:
  "(fst (pushPacket env p st) = Inl StreamingInProgress) = (inProgressStreamId st \<noteq> - 1)"
  by (simp add: pushPacket_def checkPacketStreaming_def Let_def)

lemma pullPacket_fails_iff:
  "(fst (pullPacket env st) = Inl StreamingInProgress) = (inProgressStreamId st \<noteq> - 1)"
  by (simp add: pullPacket_def checkPacketStreaming_def Let_def split: option.split)

lemma pullPacketStart_fails_iff:
  "(fst (pullPacketStart env r st) = Inl StreamingInProgress) = (inProgressStreamId st \<noteq> - 1)"
  by (simp add: pullPacketStart_def checkPacketStreaming_def Let_def split: option.split)

lemma pushPacketStart_fails_iff:
  "(fst (pushPacketStart env p r st) = Inl StreamingInProgress)
     = (inProgressStreamId st \<noteq> - 1 \<and> treeId p \<noteq> inProgressStreamId st)"
  by (simp add: pushPacketStart_def checkPacketStreaming_def Let_def)

lemma pushPacketProgress_fails_iff:
  "(fst (pushPacketProgress env p r pos ext st) = Inl StreamingInProgress)
     = (inProgressStreamId st \<noteq> - 1 \<and> treeId p \<noteq> inProgressStreamId st)"
  by (simp add: pushPacketProgress_def checkPacketStreaming_def isStreamingPacket_def Let_def)

lemma pushPacketEnd_fails_iff:
  "(fst (pushPacketEnd env p st) = Inl StreamingInProgress)
     = (inProgressStreamId st \<noteq> - 1 \<and> treeId p \<noteq> inProgressStreamId st)"
  by (simp add: pushPacketEnd_def checkPacketStreaming_def isStreamingPacket_def Let_def)

lemma pullPacketProgress_fails_iff:
  "provider env = Some pr \<Longrightarrow>
   (fst (pullPacketProgress env r pos ext st) = Inl StreamingInProgress)
     = (inProgressStreamId st \<noteq> - 1
        \<and> treeId (pullPacketProgressRet pr r pos ext) \<noteq> inProgressStreamId st)"
  by (simp add: pullPacketProgress_def checkPacketStreaming_def record_event_def Let_def)

lemma pullPacketEnd_fails_iff:
  "provider env = Some pr \<Longrightarrow>
   (fst (pullPacketEnd env st) = Inl StreamingInProgress)
     = (inProgressStreamId st \<noteq> - 1 \<and> treeId (pullPacketEndRet pr) \<noteq> inProgressStreamId st)"
  by (simp add: pullPacketEnd_def checkPacketStreaming_def record_event_def Let_def)

subsection \<open>The coordinator as a failed check leaves it\<close>

lemma pushPacket_failed:
  "fst (pushPacket env p st) = Inl StreamingInProgress \<Longrightarrow> snd (pushPacket env p st) = st"
  by (simp add: pushPacket_def checkPacketStreaming_def Let_def split: if_splits)

lemma pushPacketStart_failed:
  "fst (pushPacketStart env p r st) = Inl StreamingInProgress
   \<Longrightarrow> snd (pushPacketStart env p r st) = st"
  by (simp add: pushPacketStart_def checkPacketStreaming_def Let_def split: if_splits)

lemma pushPacketProgress_failed:
  "fst (pushPacketProgress env p r pos ext st) = Inl StreamingInProgress
   \<Longrightarrow> snd (pushPacketProgress env p r pos ext st) = st"
  by (simp add: pushPacketProgress_def checkPacketStreaming_def isStreamingPacket_def Let_def
      split: if_splits)

lemma pushPacketEnd_failed:
  "fst (pushPacketEnd env p st) = Inl StreamingInProgress \<Longrightarrow> snd (pushPacketEnd env p st) = st"
  by (simp add: pushPacketEnd_def checkPacketStreaming_def isStreamingPacket_def Let_def
      split: if_splits)

lemma pullPacket_failed:
  "fst (pullPacket env st) = Inl StreamingInProgress \<Longrightarrow> snd (pullPacket env st) = st"
  by (simp add: pullPacket_def checkPacketStreaming_def Let_def split: if_splits option.splits)

lemma pullPacketStart_failed:
  "fst (pullPacketStart env r st) = Inl StreamingInProgress \<Longrightarrow> snd (pullPacketStart env r st) = st"
  by (simp add: pullPacketStart_def checkPacketStreaming_def Let_def
      split: if_splits option.splits)

lemma pullPacketProgress_failed:
  assumes "fst (pullPacketProgress env r pos ext st) = Inl StreamingInProgress"
  shows "snd (pullPacketProgress env r pos ext st)
       = \<lparr>inProgressStreamId = inProgressStreamId st,
          trace = trace st @ [ProviderPullPacketProgress r pos ext]\<rparr>"
proof (cases "provider env")
  case None
  then show ?thesis using assms by (simp add: pullPacketProgress_def)
next
  case (Some pr)
  with assms have "inProgressStreamId st \<noteq> - 1
      \<and> treeId (pullPacketProgressRet pr r pos ext) \<noteq> inProgressStreamId st"
    by (simp add: pullPacketProgress_fails_iff)
  with Some show ?thesis
    by (simp add: pullPacketProgress_def checkPacketStreaming_def record_event_def Let_def)
qed

lemma pullPacketEnd_failed:
  assumes "fst (pullPacketEnd env st) = Inl StreamingInProgress"
  shows "snd (pullPacketEnd env st)
       = \<lparr>inProgressStreamId = inProgressStreamId st, trace = trace st @ [ProviderPullPacketEnd]\<rparr>"
proof (cases "provider env")
  case None
  then show ?thesis using assms by (simp add: pullPacketEnd_def)
next
  case (Some pr)
  with assms have "inProgressStreamId st \<noteq> - 1
      \<and> treeId (pullPacketEndRet pr) \<noteq> inProgressStreamId st"
    by (simp add: pullPacketEnd_fails_iff)
  with Some show ?thesis
    by (simp add: pullPacketEnd_def checkPacketStreaming_def record_event_def Let_def)
qed


text \<open>
  A session for tree 5 is open and the Provider would hand back a packet of that very
  tree, yet \<open>pullPacketStart\<close> fails: it checks with a null candidate, as the atomic
  operations do, before it knows any packet.
\<close>

theorem C1_counterexample:
  "provider (identityFlow (pkt 5 100)) = Some (constProvider (pkt 5 100))
   \<and> treeId (pullPacketStartRet (constProvider (pkt 5 100)) 10) = inProgressStreamId (openFlow 5)
   \<and> fst (pullPacketStart (identityFlow (pkt 5 100)) 10 (openFlow 5)) = Inl StreamingInProgress"
  by (simp add: flow_defs example_defs)

text \<open>
  C1, as it holds of the code. \<open>pushPacket\<close>, \<open>pullPacket\<close> and \<open>pullPacketStart\<close> check with a
  null candidate: they fail with the streaming error exactly when some session is open.
  \<open>pushPacketStart\<close>, \<open>pushPacketProgress\<close> and \<open>pushPacketEnd\<close> (candidate: the
  pushed packet) and \<open>pullPacketProgress\<close> and \<open>pullPacketEnd\<close> (candidate: the packet
  the Provider hands back) fail with it exactly when a session is open for a tree id
  other than the candidate's; with no session open, or a matching one, they do not.
\<close>

theorem C1_streaming_error_iff:
  "(fst (pushPacket env p st) = Inl StreamingInProgress) = (inProgressStreamId st \<noteq> - 1)
   \<and> (fst (pullPacket env st) = Inl StreamingInProgress) = (inProgressStreamId st \<noteq> - 1)
   \<and> (fst (pullPacketStart env r st) = Inl StreamingInProgress) = (inProgressStreamId st \<noteq> - 1)
   \<and> (fst (pushPacketStart env p r st) = Inl StreamingInProgress)
        = (inProgressStreamId st \<noteq> - 1 \<and> treeId p \<noteq> inProgressStreamId st)
   \<and> (fst (pushPacketProgress env p r pos ext st) = Inl StreamingInProgress)
        = (inProgressStreamId st \<noteq> - 1 \<and> treeId p \<noteq> inProgressStreamId st)
   \<and> (fst (pushPacketEnd env p st) = Inl StreamingInProgress)
        = (inProgressStreamId st \<noteq> - 1 \<and> treeId p \<noteq> inProgressStreamId st)
   \<and> (provider env = Some pr \<longrightarrow>
        (fst (pullPacketProgress env r pos ext st) = Inl StreamingInProgress)
          = (inProgressStreamId st \<noteq> - 1
             \<and> treeId (pullPacketProgressRet pr r pos ext) \<noteq> inProgressStreamId st))
   \<and> (provider env = Some pr \<longrightarrow>
        (fst (pullPacketEnd env st) = Inl StreamingInProgress)
          = (inProgressStreamId st \<noteq> - 1 \<and> treeId (pullPacketEndRet pr) \<noteq> inProgressStreamId st))"
  by (intro conjI impI)
     (simp_all add: pushPacket_fails_iff pullPacket_fails_iff pullPacketStart_fails_iff
        pushPacketStart_fails_iff pushPacketProgress_fails_iff pushPacketEnd_fails_iff
        pullPacketProgress_fails_iff pullPacketEnd_fails_iff)

theorem C1_witness:
  "provider (identityFlow (pkt 7 100)) = Some (constProvider (pkt 7 100))
   \<and> fst (pushPacket (identityFlow (pkt 7 100)) (pkt 5 100) (openFlow 5)) = Inl StreamingInProgress
   \<and> fst (pullPacketStart (identityFlow (pkt 7 100)) 10 (openFlow 5)) = Inl StreamingInProgress
   \<and> fst (pushPacketStart (identityFlow (pkt 7 100)) (pkt 5 100) 10 (openFlow 5))
        \<noteq> Inl StreamingInProgress
   \<and> fst (pullPacketEnd (identityFlow (pkt 7 100)) (openFlow 5)) = Inl StreamingInProgress
   \<and> fst (pullPacketEnd (identityFlow (pkt 7 100)) idleFlow) \<noteq> Inl StreamingInProgress"
proof -
  have pr: "provider (identityFlow (pkt 7 100)) = Some (constProvider (pkt 7 100))"
    by (simp add: identityFlow_def)
  have ids: "inProgressStreamId (openFlow 5) = 5" "inProgressStreamId idleFlow = - 1"
    "treeId (pkt 5 100) = 5" "treeId (pullPacketEndRet (constProvider (pkt 7 100))) = 7"
    by (simp_all add: example_defs)
  show ?thesis
    using pr ids
      C1_streaming_error_iff [where env = "identityFlow (pkt 7 100)" and p = "pkt 5 100"
        and st = "openFlow 5" and r = 10 and pr = "constProvider (pkt 7 100)"]
      C1_streaming_error_iff [where env = "identityFlow (pkt 7 100)" and st = idleFlow
        and pr = "constProvider (pkt 7 100)"]
    by simp
qed

text \<open>
  A session for tree 5 is open and the Provider hands back a packet of tree 7:
  \<open>pullPacketEnd\<close> fails, but only after the packet has been pulled from the Provider.
\<close>

theorem C6_counterexample:
  "fst (pullPacketEnd (identityFlow (pkt 7 100)) (openFlow 5)) = Inl StreamingInProgress
   \<and> trace (openFlow 5) = []
   \<and> trace (snd (pullPacketEnd (identityFlow (pkt 7 100)) (openFlow 5))) = [ProviderPullPacketEnd]"
  by (simp add: flow_defs example_defs)

text \<open>
  C6, as it holds of the code. When the streaming-consistency check fails, the session id is
  unchanged and nothing has been emitted or forwarded downstream. In \<open>pushPacket\<close>,
  \<open>pushPacketStart\<close>, \<open>pushPacketProgress\<close>, \<open>pushPacketEnd\<close>, \<open>pullPacket\<close> and
  \<open>pullPacketStart\<close> no neighbour has been called at all; in \<open>pullPacketProgress\<close> and
  \<open>pullPacketEnd\<close> the one interaction before the failure is the pull from the
  Provider, whose packet is the candidate of the check.
\<close>

theorem C6_failed_check_effects:
  "(fst (pushPacket env p st) = Inl StreamingInProgress \<longrightarrow> snd (pushPacket env p st) = st)
   \<and> (fst (pushPacketStart env p r st) = Inl StreamingInProgress
         \<longrightarrow> snd (pushPacketStart env p r st) = st)
   \<and> (fst (pushPacketProgress env p r pos ext st) = Inl StreamingInProgress
         \<longrightarrow> snd (pushPacketProgress env p r pos ext st) = st)
   \<and> (fst (pushPacketEnd env p st) = Inl StreamingInProgress \<longrightarrow> snd (pushPacketEnd env p st) = st)
   \<and> (fst (pullPacket env st) = Inl StreamingInProgress \<longrightarrow> snd (pullPacket env st) = st)
   \<and> (fst (pullPacketStart env r st) = Inl StreamingInProgress
         \<longrightarrow> snd (pullPacketStart env r st) = st)
   \<and> (fst (pullPacketProgress env r pos ext st) = Inl StreamingInProgress
         \<longrightarrow> snd (pullPacketProgress env r pos ext st)
             = \<lparr>inProgressStreamId = inProgressStreamId st,
                trace = trace st @ [ProviderPullPacketProgress r pos ext]\<rparr>)
   \<and> (fst (pullPacketEnd env st) = Inl StreamingInProgress
         \<longrightarrow> snd (pullPacketEnd env st)
             = \<lparr>inProgressStreamId = inProgressStreamId st,
                trace = trace st @ [ProviderPullPacketEnd]\<rparr>)"
  by (intro conjI impI)
     (simp_all only: pushPacket_failed pushPacketStart_failed pushPacketProgress_failed
        pushPacketEnd_failed pullPacket_failed pullPacketStart_failed
        pullPacketProgress_failed pullPacketEnd_failed)

theorem C6_witness:
  "fst (pushPacket (identityFlow (pkt 7 100)) (pkt 5 100) (openFlow 5)) = Inl StreamingInProgress
   \<and> snd (pushPacket (identityFlow (pkt 7 100)) (pkt 5 100) (openFlow 5)) = openFlow 5
   \<and> fst (pullPacketProgress (identityFlow (pkt 7 100)) 10 0 40 (openFlow 5))
        = Inl StreamingInProgress
   \<and> snd (pullPacketProgress (identityFlow (pkt 7 100)) 10 0 40 (openFlow 5))
        = \<lparr>inProgressStreamId = 5, trace = [ProviderPullPacketProgress 10 0 40]\<rparr>"
proof -
  have a: "fst (pushPacket (identityFlow (pkt 7 100)) (pkt 5 100) (openFlow 5))
             = Inl StreamingInProgress"
    by (simp add: flow_defs example_defs)
  have b: "fst (pullPacketProgress (identityFlow (pkt 7 100)) 10 0 40 (openFlow 5))
             = Inl StreamingInProgress"
    by (simp add: flow_defs example_defs)
  have c: "inProgressStreamId (openFlow 5) = 5" "trace (openFlow 5) = []"
    by (simp_all add: openFlow_def)
  show ?thesis
    using a b c
      C6_failed_check_effects [where env = "identityFlow (pkt 7 100)" and p = "pkt 5 100"
        and st = "openFlow 5" and r = 10 and pos = 0 and ext = 40]
    by simp
qed

section \<open>Streaming push and pull (C4, C7, C8)\<close>

text \<open>
  A session for tree 5 is open and \<open>pullPacketProgress\<close> is called with
  \<open>position + extraLength\<close> equal to the total length 100: the session is closed, but
  what goes towards the output gate is the progress animation; no end notification is
  among the events.
\<close>

theorem C4_counterexample:
  "isStreamingPacket (openFlow 5)
   \<and> treeId (pkt 5 100) = inProgressStreamId (openFlow 5)
   \<and> totalLength (pkt 5 100) = 60 + 40
   \<and> pullPacketProgress (identityFlow (pkt 5 100)) 10 60 40 (openFlow 5)
       = (Inr (pkt 5 100),
          \<lparr>inProgressStreamId = - 1,
           trace = [ProviderPullPacketProgress 10 60 40,
                    Emit packetPulledOutSignal (pkt 5 100),
                    HandlePacketProcessed (pkt 5 100),
                    AnimatePullPacketProgress (pkt 5 100) 10 60 40 5]\<rparr>)
   \<and> filter isEndNotification
         (trace (snd (pullPacketProgress (identityFlow (pkt 5 100)) 10 60 40 (openFlow 5)))) = []"
  by (simp add: flow_defs example_defs)

text \<open>
  C4, as it holds of the code. Inside an open session for the packet's tree id:
  \<open>pushPacketProgress\<close> with \<open>position + extraLength = totalLength\<close> closes the
  session and forwards an end notification downstream, and otherwise forwards a
  progress notification and leaves the session open; \<open>pullPacketProgress\<close> with
  \<open>position + extraLength = totalLength\<close> closes the session, emitting the
  pulled-out signal and recording the packet as processed, and otherwise leaves the
  session open; in both cases it returns the packet with the same progress animation
  towards the output gate, and no end notification.
\<close>

theorem C4_progress:
  "(isStreamingPacket st \<and> treeId p = inProgressStreamId st \<longrightarrow>
      pushPacketProgress env p r pos ext st
        = (if totalLength p = pos + ext
           then (Inr (), \<lparr>inProgressStreamId = - 1,
                   trace = trace st @
                     [Emit packetPushedOutSignal (processPacket env p),
                      HandlePacketProcessed (processPacket env p),
                      PushOrSendPacketEnd (processPacket env p)
                        (transmissionId (processPacket env p))]\<rparr>)
           else (Inr (), \<lparr>inProgressStreamId = inProgressStreamId st,
                   trace = trace st @
                     [PushOrSendPacketProgress (processPacket env p) r pos ext
                        (transmissionId (processPacket env p))]\<rparr>)))
   \<and> (isStreamingPacket st \<and> provider env = Some pr
        \<and> treeId (pullPacketProgressRet pr r pos ext) = inProgressStreamId st \<longrightarrow>
      pullPacketProgress env r pos ext st
        = (if totalLength (pullPacketProgressRet pr r pos ext) = pos + ext
           then (Inr (processPacket env (pullPacketProgressRet pr r pos ext)),
                 \<lparr>inProgressStreamId = - 1,
                  trace = trace st @
                    [ProviderPullPacketProgress r pos ext,
                     Emit packetPulledOutSignal
                       (processPacket env (pullPacketProgressRet pr r pos ext)),
                     HandlePacketProcessed
                       (processPacket env (pullPacketProgressRet pr r pos ext)),
                     AnimatePullPacketProgress
                       (processPacket env (pullPacketProgressRet pr r pos ext)) r pos ext
                       (transmissionId
                          (processPacket env (pullPacketProgressRet pr r pos ext)))]\<rparr>)
           else (Inr (processPacket env (pullPacketProgressRet pr r pos ext)),
                 \<lparr>inProgressStreamId = inProgressStreamId st,
                  trace = trace st @
                    [ProviderPullPacketProgress r pos ext,
                     AnimatePullPacketProgress
                       (processPacket env (pullPacketProgressRet pr r pos ext)) r pos ext
                       (transmissionId
                          (processPacket env (pullPacketProgressRet pr r pos ext)))]\<rparr>)))"
  by (intro conjI impI) (simp_all add: flow_defs)

theorem C4_witness:
  "isStreamingPacket (openFlow 5)
   \<and> pushPacketProgress (identityFlow (pkt 5 100)) (pkt 5 100) 10 60 40 (openFlow 5)
       = (Inr (), \<lparr>inProgressStreamId = - 1,
            trace = [Emit packetPushedOutSignal (pkt 5 100), HandlePacketProcessed (pkt 5 100),
                     PushOrSendPacketEnd (pkt 5 100) 5]\<rparr>)
   \<and> pushPacketProgress (identityFlow (pkt 5 100)) (pkt 5 100) 10 0 40 (openFlow 5)
       = (Inr (), \<lparr>inProgressStreamId = 5,
            trace = [PushOrSendPacketProgress (pkt 5 100) 10 0 40 5]\<rparr>)
   \<and> pullPacketProgress (identityFlow (pkt 5 100)) 10 0 40 (openFlow 5)
       = (Inr (pkt 5 100), \<lparr>inProgressStreamId = 5,
            trace = [ProviderPullPacketProgress 10 0 40,
                     AnimatePullPacketProgress (pkt 5 100) 10 0 40 5]\<rparr>)"
proof -
  have s: "isStreamingPacket (openFlow 5)"
    by (simp add: isStreamingPacket_def openFlow_def)
  have f: "treeId (pkt 5 100) = inProgressStreamId (openFlow 5)"
    "provider (identityFlow (pkt 5 100)) = Some (constProvider (pkt 5 100))"
    "treeId (pullPacketProgressRet (constProvider (pkt 5 100)) 10 0 40)
       = inProgressStreamId (openFlow 5)"
    by (simp_all add: example_defs)
  have v: "inProgressStreamId (openFlow 5) = 5" "trace (openFlow 5) = []"
    "totalLength (pkt 5 100) = 100" "transmissionId (pkt 5 100) = 5"
    "processPacket (identityFlow (pkt 5 100)) = (\<lambda>q. q)"
    "pullPacketProgressRet (constProvider (pkt 5 100)) 10 0 40 = pkt 5 100"
    by (simp_all add: example_defs)
  show ?thesis
    using s f v
      C4_progress [where env = "identityFlow (pkt 5 100)" and p = "pkt 5 100"
        and st = "openFlow 5" and r = 10 and pos = 60 and ext = 40]
      C4_progress [where env = "identityFlow (pkt 5 100)" and p = "pkt 5 100"
        and st = "openFlow 5" and r = 10 and pos = 0 and ext = 40
        and pr = "constProvider (pkt 5 100)"]
    by simp
qed

text \<open>
  C7. From an idle coordinator, \<open>pushPacket p\<close> and \<open>pushPacketStart p\<close> followed by
  \<open>pushPacketEnd p\<close> (no progress call in between) all succeed. On the atomic path the
  Consumer is shown the processed packet in one call; on the streaming path it is shown
  a start and then an end of that same processed packet, with its transmission id, and
  nothing else; \<open>pushPacketStart\<close> opens the session for the packet's tree id and
  \<open>pushPacketEnd\<close> closes it. Either way downstream ends up having received the same
  packets, the last being the processed \<open>p\<close>, the observers see the same two signals
  and one processed-packet record, and the coordinator ends in the same, idle, session
  state.
\<close>

theorem C7_atomic_vs_start_end:
  assumes "\<not> isStreamingPacket st"
  shows "fst (pushPacket env p st) = Inr ()
    \<and> fst (pushPacketStart env p r st) = Inr ()
    \<and> fst (pushPacketEnd env p (snd (pushPacketStart env p r st))) = Inr ()
    \<and> receivedDownstream (trace (snd (pushPacket env p st)))
        = receivedDownstream (trace st) @ [processPacket env p]
    \<and> receivedDownstream (trace (snd (pushPacketEnd env p (snd (pushPacketStart env p r st)))))
        = receivedDownstream (trace (snd (pushPacket env p st)))
    \<and> inProgressStreamId (snd (pushPacket env p st)) = - 1
    \<and> inProgressStreamId (snd (pushPacketEnd env p (snd (pushPacketStart env p r st))))
        = inProgressStreamId (snd (pushPacket env p st))
    \<and> inProgressStreamId (snd (pushPacketStart env p r st)) = treeId p
    \<and> trace (snd (pushPacket env p st))
        = trace st @ [Emit packetPushedInSignal p,
                      HandlePacketProcessed (processPacket env p),
                      Emit packetPushedOutSignal (processPacket env p),
                      PushOrSendPacket (processPacket env p)]
    \<and> trace (snd (pushPacketStart env p r st))
        = trace st @ [Emit packetPushedInSignal p,
                      PushOrSendPacketStart (processPacket env p) r
                        (transmissionId (processPacket env p))]
    \<and> trace (snd (pushPacketEnd env p (snd (pushPacketStart env p r st))))
        = trace st @ [Emit packetPushedInSignal p,
                      PushOrSendPacketStart (processPacket env p) r
                        (transmissionId (processPacket env p)),
                      Emit packetPushedOutSignal (processPacket env p),
                      HandlePacketProcessed (processPacket env p),
                      PushOrSendPacketEnd (processPacket env p)
                        (transmissionId (processPacket env p))]
    \<and> consumerView (trace (snd (pushPacket env p st)))
        = consumerView (trace st) @ [PushOrSendPacket (processPacket env p)]
    \<and> consumerView (trace (snd (pushPacketEnd env p (snd (pushPacketStart env p r st)))))
        = consumerView (trace st) @
          [PushOrSendPacketStart (processPacket env p) r (transmissionId (processPacket env p)),
           PushOrSendPacketEnd (processPacket env p) (transmissionId (processPacket env p))]"
proof -
  have idle: "inProgressStreamId st = - 1"
    using assms by (simp add: isStreamingPacket_def)
  have atomic: "pushPacket env p st
      = (Inr (), \<lparr>inProgressStreamId = - 1,
           trace = trace st @ [Emit packetPushedInSignal p,
                               HandlePacketProcessed (processPacket env p),
                               Emit packetPushedOutSignal (processPacket env p),
                               PushOrSendPacket (processPacket env p)]\<rparr>)"
    using idle
    by (simp add: pushPacket_def checkPacketStreaming_def emit_def handlePacketProcessed_def
        record_event_def Let_def)
  have start: "pushPacketStart env p r st
      = (Inr (), \<lparr>inProgressStreamId = treeId p,
           trace = trace st @ [Emit packetPushedInSignal p,
                               PushOrSendPacketStart (processPacket env p) r
                                 (transmissionId (processPacket env p))]\<rparr>)"
    using idle
    by (simp add: pushPacketStart_def checkPacketStreaming_def startPacketStreaming_def
        emit_def record_event_def Let_def)
  have stream: "pushPacketEnd env p (snd (pushPacketStart env p r st))
      = (Inr (), \<lparr>inProgressStreamId = - 1,
           trace = trace st @ [Emit packetPushedInSignal p,
                               PushOrSendPacketStart (processPacket env p) r
                                 (transmissionId (processPacket env p)),
                               Emit packetPushedOutSignal (processPacket env p),
                               HandlePacketProcessed (processPacket env p),
                               PushOrSendPacketEnd (processPacket env p)
                                 (transmissionId (processPacket env p))]\<rparr>)"
    unfolding start
    by (simp add: pushPacketEnd_def isStreamingPacket_def checkPacketStreaming_def
        startPacketStreaming_def endPacketStreaming_def emit_def handlePacketProcessed_def
        record_event_def Let_def)
  have started: "fst (pushPacketStart env p r st) = Inr ()"
    "inProgressStreamId (snd (pushPacketStart env p r st)) = treeId p"
    "trace (snd (pushPacketStart env p r st))
       = trace st @ [Emit packetPushedInSignal p,
                     PushOrSendPacketStart (processPacket env p) r
                       (transmissionId (processPacket env p))]"
    by (simp_all add: start)
  show ?thesis
    by (simp add: stream atomic started receivedDownstream_append consumerView_def)
qed

theorem C7_witness:
  "\<not> isStreamingPacket idleFlow
   \<and> receivedDownstream (trace (snd (pushPacket (identityFlow (pkt 5 100)) (pkt 5 100) idleFlow)))
       = [pkt 5 100]
   \<and> receivedDownstream
        (trace (snd (pushPacketEnd (identityFlow (pkt 5 100)) (pkt 5 100)
           (snd (pushPacketStart (identityFlow (pkt 5 100)) (pkt 5 100) 10 idleFlow)))))
       = [pkt 5 100]
   \<and> inProgressStreamId
        (snd (pushPacketEnd (identityFlow (pkt 5 100)) (pkt 5 100)
           (snd (pushPacketStart (identityFlow (pkt 5 100)) (pkt 5 100) 10 idleFlow)))) = - 1
   \<and> inProgressStreamId
        (snd (pushPacketStart (identityFlow (pkt 5 100)) (pkt 5 100) 10 idleFlow)) = 5
   \<and> consumerView
        (trace (snd (pushPacket (identityFlow (pkt 5 100)) (pkt 5 100) idleFlow)))
       = [PushOrSendPacket (pkt 5 100)]
   \<and> consumerView
        (trace (snd (pushPacketEnd (identityFlow (pkt 5 100)) (pkt 5 100)
           (snd (pushPacketStart (identityFlow (pkt 5 100)) (pkt 5 100) 10 idleFlow)))))
       = [PushOrSendPacketStart (pkt 5 100) 10 5, PushOrSendPacketEnd (pkt 5 100) 5]"
proof -
  have i: "\<not> isStreamingPacket idleFlow"
    by (simp add: isStreamingPacket_def idleFlow_def)
  have v: "trace idleFlow = []" "processPacket (identityFlow (pkt 5 100)) = (\<lambda>q. q)"
    "treeId (pkt 5 100) = 5" "transmissionId (pkt 5 100) = 5"
    by (simp_all add: example_defs)
  show ?thesis
    using i v
      C7_atomic_vs_start_end [OF i, where env = "identityFlow (pkt 5 100)" and p = "pkt 5 100"
        and r = 10]
    by (simp add: consumerView_def)
qed



section \<open>Notifications (C9, C10)\<close>

text \<open>
  C9. In every state, and so while idle, \<open>handleCanPushPacketChanged\<close> returns
  normally having done nothing but forward the notification once to the Producer when
  one is bound, and nothing at all when none is; the session state is unchanged.
  \<open>handleCanPullPacketChanged\<close> does the same towards the Collector.
\<close>

theorem C9_notification_relay:
  "handleCanPushPacketChanged env st
     = (Inr (), \<lparr>inProgressStreamId = inProgressStreamId st,
                trace = trace st @
                  (if producer env then [ProducerHandleCanPushPacketChanged] else [])\<rparr>)
   \<and> handleCanPullPacketChanged env st
     = (Inr (), \<lparr>inProgressStreamId = inProgressStreamId st,
                trace = trace st @
                  (if collector env then [CollectorHandleCanPullPacketChanged] else [])\<rparr>)"
  by (simp add: flow_defs)

theorem C9_witness:
  "handleCanPushPacketChanged (identityFlow (pkt 5 100)) idleFlow
     = (Inr (), \<lparr>inProgressStreamId = - 1, trace = [ProducerHandleCanPushPacketChanged]\<rparr>)
   \<and> handleCanPushPacketChanged ((identityFlow (pkt 5 100))\<lparr>producer := False\<rparr>) idleFlow
     = (Inr (), idleFlow)
   \<and> handleCanPullPacketChanged (identityFlow (pkt 5 100)) idleFlow
     = (Inr (), \<lparr>inProgressStreamId = - 1, trace = [CollectorHandleCanPullPacketChanged]\<rparr>)
   \<and> handleCanPullPacketChanged ((identityFlow (pkt 5 100))\<lparr>collector := False\<rparr>) idleFlow
     = (Inr (), idleFlow)"
  using C9_notification_relay [where env = "identityFlow (pkt 5 100)" and st = idleFlow]
    C9_notification_relay [where env = "(identityFlow (pkt 5 100))\<lparr>producer := False\<rparr>"
      and st = idleFlow]
    C9_notification_relay [where env = "(identityFlow (pkt 5 100))\<lparr>collector := False\<rparr>"
      and st = idleFlow]
  by (simp add: identityFlow_def idleFlow_def)

text \<open>
  C10. \<open>handlePushPacketProcessed\<close> and \<open>handlePullPacketProcessed\<close> return normally
  in every state and for every packet, whatever its tree id: the packet is recorded as
  processed, the coordinator is idle afterwards, and the notification is forwarded to
  the Producer, respectively the Collector, when one is bound.
\<close>

theorem C10_processed_handlers:
  "handlePushPacketProcessed env p ok st
     = (Inr (), \<lparr>inProgressStreamId = - 1,
                trace = trace st @ HandlePacketProcessed p #
                  (if producer env then [ProducerHandlePushPacketProcessed p ok] else [])\<rparr>)
   \<and> handlePullPacketProcessed env p ok st
     = (Inr (), \<lparr>inProgressStreamId = - 1,
                trace = trace st @ HandlePacketProcessed p #
                  (if collector env then [CollectorHandlePullPacketProcessed p ok] else [])\<rparr>)"
  by (simp add: flow_defs)

theorem C10_witness:
  "treeId (pkt 7 100) \<noteq> inProgressStreamId (openFlow 5)
   \<and> handlePushPacketProcessed (identityFlow (pkt 5 100)) (pkt 7 100) True (openFlow 5)
     = (Inr (), \<lparr>inProgressStreamId = - 1,
                trace = [HandlePacketProcessed (pkt 7 100),
                         ProducerHandlePushPacketProcessed (pkt 7 100) True]\<rparr>)
   \<and> handlePullPacketProcessed (identityFlow (pkt 5 100)) (pkt 7 100) True (openFlow 5)
     = (Inr (), \<lparr>inProgressStreamId = - 1,
                trace = [HandlePacketProcessed (pkt 7 100),
                         CollectorHandlePullPacketProcessed (pkt 7 100) True]\<rparr>)"
  using C10_processed_handlers [where env = "identityFlow (pkt 5 100)" and p = "pkt 7 100"
      and ok = True and st = "openFlow 5"]
  by (simp add: identityFlow_def openFlow_def pkt_def)

section \<open>The Preempting Server (C2, C3, C5)\<close>

text \<open>
  C5. An idle server that can start streaming does so on either change notification:
  it pull-starts one packet from the Provider at the configured rate, pushes a duplicate
  downstream as a push-start at that rate, schedules the timer
  \<open>totalLength / datarate\<close> after the current clock time, reports the pulled packet as
  processed, in this order, and holds the pulled packet as \<open>streamedPacket\<close>. The
  rate is taken positive, where the quotient of the exact numbers is the quotient the
  code computes.
\<close>

theorem C5_start_transition:
  assumes "\<not> isStreaming st" and "canStartStreaming env" and "0 < datarate env"
  shows "handleCanPushPacketChanged_server env st = startStreaming env st
    \<and> handleCanPullPacketChanged_server env st = startStreaming env st
    \<and> streamedPacket (startStreaming env st)
        = Some (pullPacketStartRet (upstream env) (datarate env))
    \<and> timer (startStreaming env st)
        = Some (clockTime env
                + of_int (totalLength (pullPacketStartRet (upstream env) (datarate env)))
                  / datarate env)
    \<and> actions (startStreaming env st)
        = actions st @
          [ProviderPullPacketStart (datarate env),
           PushOrSendPacketStart (dup env (pullPacketStartRet (upstream env) (datarate env)))
             (datarate env) (transmissionId (pullPacketStartRet (upstream env) (datarate env))),
           ScheduleClockEventAfter
             (of_int (totalLength (pullPacketStartRet (upstream env) (datarate env)))
              / datarate env),
           HandlePacketProcessed (pullPacketStartRet (upstream env) (datarate env))]"
  using assms by (simp add: server_defs)

theorem C5_witness:
  "\<not> isStreaming idleServer
   \<and> canStartStreaming (exampleServerEnv 0)
   \<and> 0 < datarate (exampleServerEnv 0)
   \<and> streamedPacket (handleCanPushPacketChanged_server (exampleServerEnv 0) idleServer)
       = Some (pkt 1 100)
   \<and> timer (handleCanPushPacketChanged_server (exampleServerEnv 0) idleServer) = Some 10
   \<and> actions (handleCanPullPacketChanged_server (exampleServerEnv 0) idleServer)
       = [ProviderPullPacketStart 10, PushOrSendPacketStart (pkt 1 100) 10 1,
          ScheduleClockEventAfter 10, HandlePacketProcessed (pkt 1 100)]"
proof -
  have h: "\<not> isStreaming idleServer" "canStartStreaming (exampleServerEnv 0)"
    "0 < datarate (exampleServerEnv 0)"
    by (simp_all add: isStreaming_def idleServer_def canStartStreaming_def
        exampleServerEnv_def constProvider_def)
  have v: "actions idleServer = []" "datarate (exampleServerEnv 0) = 10"
    "clockTime (exampleServerEnv 0) = 0" "dup (exampleServerEnv 0) = (\<lambda>q. q)"
    "pullPacketStartRet (upstream (exampleServerEnv 0)) 10 = pkt 1 100"
    "totalLength (pkt 1 100) = 100" "transmissionId (pkt 1 100) = 1"
    by (simp_all add: example_defs)
  show ?thesis
    using h v C5_start_transition [OF h] by simp
qed

text \<open>
  C3. A streaming server that receives \<open>handleCanPullPacketChanged\<close> pull-ends from
  the Provider, discards the packet it held, push-ends the finalized packet downstream,
  clears \<open>streamedPacket\<close> and cancels the timer, in this order; afterwards the server
  is idle, the timer is not scheduled, and it fires at no later time: advancing the
  clock delivers nothing.
\<close>

theorem C3_preemption:
  assumes "isStreaming st"
  shows "streamedPacket (handleCanPullPacketChanged_server env st) = None
    \<and> \<not> isStreaming (handleCanPullPacketChanged_server env st)
    \<and> timer (handleCanPullPacketChanged_server env st) = None
    \<and> actions (handleCanPullPacketChanged_server env st)
        = actions st @ [ProviderPullPacketEnd, DeletePacket (the (streamedPacket st)),
                        PushOrSendPacketEnd (pullPacketEndRet (upstream env))
                          (transmissionId (pullPacketEndRet (upstream env))),
                        CancelClockEvent]
    \<and> (\<forall>t. \<not> timerFiresBy (handleCanPullPacketChanged_server env st) t)
    \<and> (\<forall>t env'. advanceClockTo env' t (handleCanPullPacketChanged_server env st)
                  = handleCanPullPacketChanged_server env st)"
  using assms by (auto simp add: server_defs timerFiresBy_def advanceClockTo_def)

theorem C3_witness:
  "isStreaming streamingServer
   \<and> timer streamingServer = Some 10
   \<and> timerFiresBy streamingServer 10
   \<and> \<not> isStreaming (handleCanPullPacketChanged_server (exampleServerEnv 4) streamingServer)
   \<and> timer (handleCanPullPacketChanged_server (exampleServerEnv 4) streamingServer) = None
   \<and> \<not> timerFiresBy (handleCanPullPacketChanged_server (exampleServerEnv 4) streamingServer) 10
   \<and> advanceClockTo (exampleServerEnv 10) 10
        (handleCanPullPacketChanged_server (exampleServerEnv 4) streamingServer)
       = handleCanPullPacketChanged_server (exampleServerEnv 4) streamingServer
   \<and> actions (handleCanPullPacketChanged_server (exampleServerEnv 4) streamingServer)
       = [ProviderPullPacketStart 10, PushOrSendPacketStart (pkt 1 100) 10 1,
          ScheduleClockEventAfter 10, HandlePacketProcessed (pkt 1 100),
          ProviderPullPacketEnd, DeletePacket (pkt 1 100), PushOrSendPacketEnd (pkt 1 100) 1,
          CancelClockEvent]"
proof -
  have s: "isStreaming streamingServer"
    by (simp add: streamingServer_eq isStreaming_def)
  have v: "timer streamingServer = Some 10" "timerFiresBy streamingServer 10"
    "streamedPacket streamingServer = Some (pkt 1 100)"
    "actions streamingServer
       = [ProviderPullPacketStart 10, PushOrSendPacketStart (pkt 1 100) 10 1,
          ScheduleClockEventAfter 10, HandlePacketProcessed (pkt 1 100)]"
    "pullPacketEndRet (upstream (exampleServerEnv 4)) = pkt 1 100"
    "transmissionId (pkt 1 100) = 1"
    by (simp_all add: streamingServer_eq timerFiresBy_def exampleServerEnv_def
        constProvider_def pkt_def)
  show ?thesis
    using s v C3_preemption [OF s, where env = "exampleServerEnv 4"] by simp
qed

text \<open>
  The example server is streaming; after \<open>handlePushPacketProcessed\<close> it is idle:
  \<open>streamedPacket\<close> is null.
\<close>

theorem C2_counterexample:
  "isStreaming streamingServer
   \<and> \<not> isStreaming
         (handlePushPacketProcessed_server (exampleServerEnv 4) (pkt 1 100) True streamingServer)
   \<and> streamedPacket
         (handlePushPacketProcessed_server (exampleServerEnv 4) (pkt 1 100) True streamingServer)
       = None"
  by (simp add: streamingServer_eq server_defs)

text \<open>
  C2, as it holds of the code. A streaming server that receives \<open>handlePushPacketProcessed\<close>
  discards the packet it held, pull-ends from the Provider, discards the finalized
  packet as well and clears \<open>streamedPacket\<close>: after the handler the server is idle,
  and nothing has been pushed downstream.
\<close>

theorem C2_ack_ends_streaming:
  assumes "isStreaming st"
  shows "streamedPacket (handlePushPacketProcessed_server env p ok st) = None
    \<and> \<not> isStreaming (handlePushPacketProcessed_server env p ok st)
    \<and> actions (handlePushPacketProcessed_server env p ok st)
        = actions st @ [DeletePacket (the (streamedPacket st)), ProviderPullPacketEnd,
                        DeletePacket (pullPacketEndRet (upstream env))]
    \<and> receivedDownstream (actions (handlePushPacketProcessed_server env p ok st))
        = receivedDownstream (actions st)"
  using assms by (auto simp add: server_defs receivedDownstream_append)

theorem C2_witness:
  "isStreaming streamingServer
   \<and> streamedPacket
        (handlePushPacketProcessed_server (exampleServerEnv 4) (pkt 1 100) True streamingServer)
       = None
   \<and> actions
        (handlePushPacketProcessed_server (exampleServerEnv 4) (pkt 1 100) True streamingServer)
       = [ProviderPullPacketStart 10, PushOrSendPacketStart (pkt 1 100) 10 1,
          ScheduleClockEventAfter 10, HandlePacketProcessed (pkt 1 100),
          DeletePacket (pkt 1 100), ProviderPullPacketEnd, DeletePacket (pkt 1 100)]"
proof -
  have s: "isStreaming streamingServer"
    by (simp add: streamingServer_eq isStreaming_def)
  have v: "streamedPacket streamingServer = Some (pkt 1 100)"
    "actions streamingServer
       = [ProviderPullPacketStart 10, PushOrSendPacketStart (pkt 1 100) 10 1,
          ScheduleClockEventAfter 10, HandlePacketProcessed (pkt 1 100)]"
    "pullPacketEndRet (upstream (exampleServerEnv 4)) = pkt 1 100"
    by (simp_all add: streamingServer_eq exampleServerEnv_def constProvider_def)
  show ?thesis
    using s v
      C2_ack_ends_streaming [OF s, where env = "exampleServerEnv 4" and p = "pkt 1 100"
        and ok = True]
    by simp
qed

end
